theory Spec2Isabelle
  imports Main "HOL-Library.Sublist"
begin

section \<open>Strings, paths and the effects of the scripts\<close>

text \<open>
  Python strings are modelled as \<^typ>\<open>string\<close>, Python integers as \<^typ>\<open>int\<close>, tuples and
  lists of positions as \<^typ>\<open>int list\<close>. The line feed of the templates is \<open>NL\<close>.
\<close>

definition NL :: char where
  "NL = CHR 0x0A"

text \<open>\<^verbatim>\<open>str(n)\<close> for an integer: decimal digits, a minus sign for a negative number.\<close>

fun str_nat :: "nat \<Rightarrow> string" where
  "str_nat n =
     (if n < 10 then [''0123456789'' ! n]
      else str_nat (n div 10) @ [''0123456789'' ! (n mod 10)])"

declare str_nat.simps [simp del]

definition py_str :: "int \<Rightarrow> string" where
  "py_str i = (if i < 0 then CHR ''-'' # str_nat (nat (- i)) else str_nat (nat i))"

text \<open>\<^verbatim>\<open>sep.join(xs)\<close>.\<close>

fun join :: "string \<Rightarrow> string list \<Rightarrow> string" where
  "join sep [] = []"
| "join sep [x] = x"
| "join sep (x # y # ys) = x @ sep @ join sep (y # ys)"

text \<open>\<^verbatim>\<open>range(a, b)\<close> over integers.\<close>

definition py_range :: "int \<Rightarrow> int \<Rightarrow> int list" where
  "py_range a b = [a..b - 1]"

text \<open>\<^verbatim>\<open>os.path.join(a, b)\<close> of \<^verbatim>\<open>posixpath\<close>, for two components.\<close>

definition path_join :: "string \<Rightarrow> string \<Rightarrow> string" where
  "path_join a b =
     (if b \<noteq> [] \<and> hd b = CHR ''/'' then b
      else if a = [] \<or> last a = CHR ''/'' then a @ b
      else a @ ''/'' @ b)"

text \<open>
  What a script does to the outside: directories made by \<^verbatim>\<open>os.makedirs\<close>, files opened for
  writing with the text written to each, and lines printed, each in the order of the calls.
  Input and output are taken to succeed; a failing write is outside the model.
\<close>

record world =
  made_dirs :: "string list"
  written :: "(string \<times> string) list"
  printed :: "string list"

definition makedirs :: "string \<Rightarrow> 'a world_scheme \<Rightarrow> 'a world_scheme" where
  "makedirs d w = w\<lparr>made_dirs := made_dirs w @ [d]\<rparr>"

definition write_file :: "string \<Rightarrow> string \<Rightarrow> 'a world_scheme \<Rightarrow> 'a world_scheme" where
  "write_file p text w = w\<lparr>written := written w @ [(p, text)]\<rparr>"

definition print :: "string \<Rightarrow> 'a world_scheme \<Rightarrow> 'a world_scheme" where
  "print line w = w\<lparr>printed := printed w @ [line]\<rparr>"

text \<open>\<^verbatim>\<open>os.environ.get("GJF_OUTPUT_DIR", "geometry_input")\<close>: the argument is the variable's
  value, \<open>None\<close> when it is not set.\<close>

definition output_dir :: "string option \<Rightarrow> string" where
  "output_dir env = (case env of None \<Rightarrow> ''geometry_input'' | Some d \<Rightarrow> d)"

datatype error = UnboundLocalError

section \<open>geometry\_file\_generator.py\<close>

subsection \<open>The constants\<close>

definition GAUSSIAN_HEADER_format :: "string \<Rightarrow> string \<Rightarrow> string \<Rightarrow> string \<Rightarrow> string" where
  "GAUSSIAN_HEADER_format filename title charge multiplicity =
     ''%mem=8GB'' @ [NL] @
     ''%nprocshare=4'' @ [NL] @
     ''%chk=geometry_chks/'' @ filename @ ''.chk'' @ [NL] @
     ''# opt am1'' @ [NL] @
     [NL] @
     title @ [NL] @
     [NL] @
     charge @ '' '' @ multiplicity @ [NL]"

definition C_ATOMS :: "string list" where
  "C_ATOMS =
     [''C  -3.20928   0.19943  0.00000'',
      ''C  -2.01150   0.93555  0.00000'',
      ''C  -0.77511   0.26630  0.00000'',
      ''C  -0.73650  -1.13907  0.00000'',
      ''C  -1.93429  -1.87519  0.00000'',
      ''C  -3.17067  -1.20594  0.00000'']"

definition SUBSTITUENT_COORDS :: "string list" where
  "SUBSTITUENT_COORDS =
     [''-4.67483  -2.13035  0.00000'',
      ''-4.76193   1.03987 -0.00000'',
      '' 0.81614  -1.97951  0.00000'',
      ''-1.88580  -3.64003  0.00000'',
      ''-2.05998   2.70040 -0.00000'',
      '' 0.72905   1.19071  0.00000'']"

definition CHLORINE_POSITIONS :: "int list list" where
  "CHLORINE_POSITIONS =
     [[1],
      [1, 2], [1, 3], [1, 4],
      [1, 2, 3], [1, 2, 4], [1, 3, 5],
      [1, 2, 3, 4], [1, 2, 3, 5], [1, 2, 4, 5],
      [1, 2, 3, 4, 5],
      [1, 2, 3, 4, 5, 6]]"

text \<open>The local variables of one deck, as the functions below bind them.\<close>

record deck =
  filename_base :: string
  title :: string
  charge :: string
  multiplicity :: string
  all_atoms :: "string list"
  gjf_content :: string
  filepath :: string

subsection \<open>generate\_gjf\_files\<close>

text \<open>One turn of \<^verbatim>\<open>for i in range(6)\<close>: the site \<open>i + 1\<close> gets a chlorine or a hydrogen
  line, appended to the atoms so far.\<close>

definition gjf_site :: "int list \<Rightarrow> string list \<Rightarrow> int \<Rightarrow> string list" where
  "gjf_site position_list atoms i =
     (let is_chlorine = (i + 1 \<in> set position_list);
          coords = SUBSTITUENT_COORDS ! nat i
      in if is_chlorine then atoms @ [''Cl '' @ coords]
         else atoms @ [''H  '' @ coords])"

definition gjf_deck :: "string \<Rightarrow> int list \<Rightarrow> deck" where
  "gjf_deck OUTPUT_DIR position_list =
     (let position_string = concat (map py_str position_list);
          filename_base = position_string @ ''ClBz'';
          title = py_str (int (length position_list)) @ ''-Chloro-Benzene ('' @ position_string @ '')'';
          charge = ''0'';
          multiplicity = ''1'';
          all_atoms = foldl (gjf_site position_list) C_ATOMS (py_range 0 6);
          gjf_content = GAUSSIAN_HEADER_format filename_base title charge multiplicity
                        @ join [NL] all_atoms @ [NL, NL];
          filepath = path_join OUTPUT_DIR (filename_base @ ''.gjf'')
      in \<lparr>filename_base = filename_base, title = title, charge = charge,
          multiplicity = multiplicity, all_atoms = all_atoms, gjf_content = gjf_content,
          filepath = filepath\<rparr>)"

definition generate_gjf_files :: "string option \<Rightarrow> int list \<Rightarrow> world \<Rightarrow> (string \<times> string) \<times> world" where
  "generate_gjf_files env position_list w =
     (let OUTPUT_DIR = output_dir env;
          d = gjf_deck OUTPUT_DIR position_list;
          w1 = makedirs OUTPUT_DIR w;
          w2 = write_file (filepath d) (gjf_content d) w1;
          w3 = print (''--- Wrote GJF file: '' @ filepath d @ '' ---'') w2
      in ((filepath d, gjf_content d), w3))"

subsection \<open>generate\_anion\_intermediates and generate\_neutral\_radicals\_intermediates\<close>

text \<open>One turn of \<^verbatim>\<open>for i in range(1, 7)\<close>, which builds \<^verbatim>\<open>pattern_parts\<close>.\<close>

definition pattern_step :: "int list \<Rightarrow> int \<Rightarrow> string list \<Rightarrow> int \<Rightarrow> string list" where
  "pattern_step original_positions removed pattern_parts i =
     (if i \<in> set original_positions then
        (if i = removed then pattern_parts @ [''_''] else pattern_parts @ [py_str i])
      else pattern_parts)"

definition pattern_of :: "int list \<Rightarrow> int \<Rightarrow> string" where
  "pattern_of original_positions removed =
     concat (foldl (pattern_step original_positions removed) [] (py_range 1 7))"

text \<open>One turn of \<^verbatim>\<open>for i in range(6)\<close> of the intermediates: a chlorine line, nothing at
  all (\<^verbatim>\<open>continue\<close>) for the removed site, or a hydrogen line.\<close>

definition intermediate_site :: "int list \<Rightarrow> int \<Rightarrow> string list \<Rightarrow> int \<Rightarrow> string list" where
  "intermediate_site new_positions removed atoms i =
     (let is_chlorine = (i + 1 \<in> set new_positions);
          coords = SUBSTITUENT_COORDS ! nat i
      in if is_chlorine then atoms @ [''Cl '' @ coords]
         else if i = removed - 1 then atoms
         else atoms @ [''H  '' @ coords])"

text \<open>The body of \<^verbatim>\<open>for removed in original_positions\<close> up to the file path, for the anion.\<close>

definition anion_deck :: "string \<Rightarrow> int list \<Rightarrow> int \<Rightarrow> deck" where
  "anion_deck OUTPUT_DIR original_positions removed =
     (let pattern = pattern_of original_positions removed;
          filename_base = pattern @ ''ClBzAnionIntermediate'';
          title = ''Anion Intermediate (removed '' @ py_str removed @ '') '' @ pattern;
          new_positions = filter (\<lambda>p. p \<noteq> removed) original_positions;
          charge = ''-1'';
          multiplicity = ''0'';
          all_atoms = foldl (intermediate_site new_positions removed) C_ATOMS (py_range 0 6);
          gjf_content = GAUSSIAN_HEADER_format filename_base title charge multiplicity
                        @ join [NL] all_atoms @ [NL, NL];
          filepath = path_join OUTPUT_DIR (filename_base @ ''.gjf'')
      in \<lparr>filename_base = filename_base, title = title, charge = charge,
          multiplicity = multiplicity, all_atoms = all_atoms, gjf_content = gjf_content,
          filepath = filepath\<rparr>)"

text \<open>The same body in the neutral radical's function.\<close>

definition neutral_deck :: "string \<Rightarrow> int list \<Rightarrow> int \<Rightarrow> deck" where
  "neutral_deck OUTPUT_DIR original_positions removed =
     (let pattern = pattern_of original_positions removed;
          filename_base = pattern @ ''ClBzNeutralRadical'';
          title = ''Neutral Radical (removed '' @ py_str removed @ '') '' @ pattern;
          new_positions = filter (\<lambda>p. p \<noteq> removed) original_positions;
          charge = ''0'';
          multiplicity = ''2'';
          all_atoms = foldl (intermediate_site new_positions removed) C_ATOMS (py_range 0 6);
          gjf_content = GAUSSIAN_HEADER_format filename_base title charge multiplicity
                        @ join [NL] all_atoms @ [NL, NL];
          filepath = path_join OUTPUT_DIR (filename_base @ ''.gjf'')
      in \<lparr>filename_base = filename_base, title = title, charge = charge,
          multiplicity = multiplicity, all_atoms = all_atoms, gjf_content = gjf_content,
          filepath = filepath\<rparr>)"

text \<open>
  The state of the outer loop: the outside, the list \<^verbatim>\<open>results\<close>, and the variable
  \<^verbatim>\<open>filepath\<close>, which is unbound (\<open>None\<close>) until the body has run once.
\<close>

record frame = world +
  results :: "(string \<times> string) list"
  filepath_var :: "string option"

definition anion_body :: "string \<Rightarrow> int list \<Rightarrow> frame \<Rightarrow> int \<Rightarrow> frame" where
  "anion_body OUTPUT_DIR original_positions st removed =
     (let d = anion_deck OUTPUT_DIR original_positions removed;
          st1 = st\<lparr>filepath_var := Some (filepath d)\<rparr>;
          st2 = write_file (filepath d) (gjf_content d) st1;
          st3 = print (''--- Wrote Anion Radical GJF: '' @ filepath d @ '' ---'') st2
      in st3\<lparr>results := results st3 @ [(filepath d, gjf_content d)]\<rparr>)"

definition neutral_body :: "string \<Rightarrow> int list \<Rightarrow> frame \<Rightarrow> int \<Rightarrow> frame" where
  "neutral_body OUTPUT_DIR original_positions st removed =
     (let d = neutral_deck OUTPUT_DIR original_positions removed;
          st1 = st\<lparr>filepath_var := Some (filepath d)\<rparr>;
          st2 = write_file (filepath d) (gjf_content d) st1;
          st3 = print (''--- Wrote Neutral Radical GJF: '' @ filepath d @ '' ---'') st2
      in st3\<lparr>results := results st3 @ [(filepath d, gjf_content d)]\<rparr>)"

text \<open>The frame before the loop: \<^verbatim>\<open>results = []\<close>, the directory made, no \<^verbatim>\<open>filepath\<close> yet.\<close>

definition enter :: "string \<Rightarrow> world \<Rightarrow> frame" where
  "enter OUTPUT_DIR w =
     makedirs OUTPUT_DIR
       \<lparr>made_dirs = made_dirs w, written = written w, printed = printed w,
        results = [], filepath_var = None\<rparr>"

definition anion_loop :: "string option \<Rightarrow> int list \<Rightarrow> world \<Rightarrow> frame" where
  "anion_loop env position_list w =
     (let OUTPUT_DIR = output_dir env;
          original_positions = position_list
      in foldl (anion_body OUTPUT_DIR original_positions) (enter OUTPUT_DIR w) original_positions)"

definition neutral_loop :: "string option \<Rightarrow> int list \<Rightarrow> world \<Rightarrow> frame" where
  "neutral_loop env position_list w =
     (let OUTPUT_DIR = output_dir env;
          original_positions = position_list
      in foldl (neutral_body OUTPUT_DIR original_positions) (enter OUTPUT_DIR w) original_positions)"

text \<open>\<^verbatim>\<open>return filepath\<close>: the variable's value, or the error of reading an unbound local.\<close>

definition return_filepath :: "frame \<Rightarrow> (error + string) \<times> world" where
  "return_filepath st =
     (case filepath_var st of None \<Rightarrow> Inl UnboundLocalError | Some p \<Rightarrow> Inr p,
      \<lparr>made_dirs = made_dirs st, written = written st, printed = printed st\<rparr>)"

definition generate_anion_intermediates ::
  "string option \<Rightarrow> int list \<Rightarrow> world \<Rightarrow> (error + string) \<times> world" where
  "generate_anion_intermediates env position_list w =
     return_filepath (anion_loop env position_list w)"

definition generate_neutral_radicals_intermediates ::
  "string option \<Rightarrow> int list \<Rightarrow> world \<Rightarrow> (error + string) \<times> world" where
  "generate_neutral_radicals_intermediates env position_list w =
     return_filepath (neutral_loop env position_list w)"

subsection \<open>Reading an atom line\<close>

text \<open>
  An atom line is the element symbol, blanks, and the three coordinates. \<open>element_of\<close> is
  the symbol of a line; \<open>site_line\<close> is the line of a substituent site, numbered from 1,
  given the positions that carry a chlorine.
\<close>

definition element_of :: "string \<Rightarrow> string" where
  "element_of line = takeWhile (\<lambda>c. c \<noteq> CHR '' '') line"

definition site_line :: "int list \<Rightarrow> int \<Rightarrow> string" where
  "site_line chlorines site =
     (if site \<in> set chlorines then ''Cl '' else ''H  '') @ SUBSTITUENT_COORDS ! nat (site - 1)"

subsection \<open>The derivation with the state as a parameter\<close>

text \<open>
  The specification asks for one derivation that takes the electronic state as a
  parameter. \<open>intermediate_text\<close> is the deck of that derivation, written after the
  specification's words: the state gives the suffix of the name, the first words of the
  title and the line of charge and multiplicity; everything else is the same for both
  states. It is compared with the two functions of the source below.
\<close>

datatype electronic_state = Anion | NeutralRadical

fun state_suffix :: "electronic_state \<Rightarrow> string" where
  "state_suffix Anion = ''ClBzAnionIntermediate''"
| "state_suffix NeutralRadical = ''ClBzNeutralRadical''"

fun state_title :: "electronic_state \<Rightarrow> string" where
  "state_title Anion = ''Anion Intermediate''"
| "state_title NeutralRadical = ''Neutral Radical''"

fun state_line :: "electronic_state \<Rightarrow> string" where
  "state_line Anion = ''-1 0''"
| "state_line NeutralRadical = ''0 2''"

definition intermediate_text :: "electronic_state \<Rightarrow> int list \<Rightarrow> int \<Rightarrow> string" where
  "intermediate_text st ps r =
     ''%mem=8GB'' @ [NL] @
     ''%nprocshare=4'' @ [NL] @
     ''%chk=geometry_chks/'' @ pattern_of ps r @ state_suffix st @ ''.chk'' @ [NL] @
     ''# opt am1'' @ [NL] @
     [NL] @
     state_title st @ '' (removed '' @ py_str r @ '') '' @ pattern_of ps r @ [NL] @
     [NL] @
     state_line st @ [NL] @
     join [NL] (C_ATOMS @ map (site_line ps) (filter (\<lambda>s. s \<noteq> r) [1, 2, 3, 4, 5, 6])) @
     [NL, NL]"

subsection \<open>Reading a name back\<close>

text \<open>
  Modelled from the spec: the reading of a name back into positions, for which the
  repository has no code. \<open>name_positions\<close> follows the specification's words: the digits
  of the part of the name before \<^verbatim>\<open>ClBz\<close>, each as a number.
\<close>

fun before_marker :: "string \<Rightarrow> string \<Rightarrow> string" where
  "before_marker m [] = []"
| "before_marker m (c # t) = (if prefix m (c # t) then [] else c # before_marker m t)"

definition digit_value :: "char \<Rightarrow> int" where
  "digit_value c = int (length (takeWhile (\<lambda>d. d \<noteq> c) ''0123456789''))"

definition name_positions :: "string \<Rightarrow> int list" where
  "name_positions name =
     map digit_value (filter (\<lambda>c. c \<in> set ''0123456789'') (before_marker ''ClBz'' name))"

section \<open>scrape\_frequency\_logs.py\<close>

subsection \<open>Texts and the classes of characters\<close>












subsection \<open>The number pattern\<close>







subsection \<open>The two marker patterns\<close>


















subsection \<open>extract\_values and derive\_name\_from\_stem\<close>


text \<open>
  \<^verbatim>\<open>derive_name_from_stem\<close> looks at no character of a stem but the blank and the
  underscore; its stems are strings of this theory.
\<close>

text \<open>\<^verbatim>\<open>s.rsplit(sep, 1)\<close> for a separator of one character: the text before the last
  separator and the text after it, or the whole string alone when it has none.\<close>

definition rsplit1 :: "char \<Rightarrow> string \<Rightarrow> string list" where
  "rsplit1 sep s =
     (if sep \<in> set s
      then [rev (tl (dropWhile (\<lambda>c. c \<noteq> sep) (rev s))), rev (takeWhile (\<lambda>c. c \<noteq> sep) (rev s))]
      else [s])"

text \<open>\<^verbatim>\<open>s.strip(chars)\<close>: the characters of \<open>chars\<close> removed from both ends.\<close>

definition strip :: "string \<Rightarrow> string \<Rightarrow> string" where
  "strip chars s =
     rev (dropWhile (\<lambda>c. c \<in> set chars) (rev (dropWhile (\<lambda>c. c \<in> set chars) s)))"

definition derive_name_from_stem :: "string \<Rightarrow> string" where
  "derive_name_from_stem stem =
     (let left = (if CHR ''_'' \<in> set stem then rsplit1 (CHR ''_'') stem ! 0 else stem);
          left = strip '' _'' left
      in if left = [] then stem else left)"

section \<open>Properties of the geometry generator\<close>

lemma py_range_0_6: "py_range 0 6 = [0, 1, 2, 3, 4, 5]"
  by (simp add: py_range_def upto.simps)

lemma py_range_1_7: "py_range 1 7 = [1, 2, 3, 4, 5, 6]"
  by (simp add: py_range_def upto.simps)

lemma py_str_site:
  "py_str 1 = ''1''" "py_str 2 = ''2''" "py_str 3 = ''3''"
  "py_str 4 = ''4''" "py_str 5 = ''5''" "py_str 6 = ''6''"
  by (simp_all add: py_str_def str_nat.simps)

lemma foldl_pattern_step:
  "foldl (pattern_step ps r) acc js =
     acc @ concat (map (\<lambda>i. if i \<in> set ps then [if i = r then ''_'' else py_str i] else []) js)"
  by (induction js arbitrary: acc) (simp_all add: pattern_step_def)

lemma pattern_of_sites:
  "pattern_of ps r =
     concat (map (\<lambda>i. if i \<in> set ps then (if i = r then ''_'' else [''123456'' ! nat (i - 1)]) else [])
                 [1, 2, 3, 4, 5, 6])"
  unfolding pattern_of_def py_range_1_7 foldl_pattern_step
  by (simp add: py_str_site)

lemma foldl_gjf_site:
  "foldl (gjf_site ps) acc js = acc @ map (\<lambda>i. site_line ps (i + 1)) js"
  by (induction js arbitrary: acc) (simp_all add: gjf_site_def site_line_def)

lemma gjf_atoms:
  "all_atoms (gjf_deck dir ps) = C_ATOMS @ map (site_line ps) [1, 2, 3, 4, 5, 6]"
proof -
  have "all_atoms (gjf_deck dir ps) = foldl (gjf_site ps) C_ATOMS [0, 1, 2, 3, 4, 5]"
    by (simp add: gjf_deck_def Let_def py_range_0_6 del: foldl_Cons)
  also have "\<dots> = C_ATOMS @ map (\<lambda>i. site_line ps (i + 1)) [0, 1, 2, 3, 4, 5]"
    by (rule foldl_gjf_site)
  finally show ?thesis by simp
qed

lemma foldl_intermediate_site:
  "foldl (intermediate_site (filter (\<lambda>p. p \<noteq> r) ps) r) acc js =
     acc @ map (\<lambda>i. site_line ps (i + 1)) (filter (\<lambda>i. i + 1 \<noteq> r) js)"
  by (induction js arbitrary: acc) (auto simp: intermediate_site_def site_line_def)

lemma intermediate_atoms:
  "foldl (intermediate_site (filter (\<lambda>p. p \<noteq> r) ps) r) C_ATOMS (py_range 0 6) =
     C_ATOMS @ map (site_line ps) (filter (\<lambda>s. s \<noteq> r) [1, 2, 3, 4, 5, 6])"
proof -
  have "filter (\<lambda>i. i + 1 \<noteq> r) [0, 1, 2, 3, 4, 5] =
      map (\<lambda>s. s - 1) (filter (\<lambda>s. s \<noteq> r) [1, 2, 3, 4, 5, 6])"
    by simp
  then have "map (\<lambda>i. site_line ps (i + 1)) (filter (\<lambda>i. i + 1 \<noteq> r) [0, 1, 2, 3, 4, 5]) =
      map (site_line ps) (filter (\<lambda>s. s \<noteq> r) [1, 2, 3, 4, 5, 6])"
    by (simp only: map_map comp_def) simp
  then show ?thesis
    by (simp only: py_range_0_6 foldl_intermediate_site)
qed

lemma anion_atoms:
  "all_atoms (anion_deck dir ps r) =
     C_ATOMS @ map (site_line ps) (filter (\<lambda>s. s \<noteq> r) [1, 2, 3, 4, 5, 6])"
  by (simp only: anion_deck_def Let_def deck.simps intermediate_atoms)

lemma neutral_atoms:
  "all_atoms (neutral_deck dir ps r) =
     C_ATOMS @ map (site_line ps) (filter (\<lambda>s. s \<noteq> r) [1, 2, 3, 4, 5, 6])"
  by (simp only: neutral_deck_def Let_def deck.simps intermediate_atoms)

lemma count_sites:
  assumes "distinct ps" and "set ps \<subseteq> {1..6}"
  shows "length (filter (\<lambda>s. s \<in> set ps) [1, 2, 3, 4, 5, 6::int]) = length ps"
proof -
  have d: "distinct [1, 2, 3, 4, 5, 6::int]" by simp
  have s: "set [1, 2, 3, 4, 5, 6::int] = {1..6}" by auto
  have "length (filter (\<lambda>s. s \<in> set ps) [1, 2, 3, 4, 5, 6::int])
      = card ({s. s \<in> set ps} \<inter> set [1, 2, 3, 4, 5, 6::int])"
    using d by (rule distinct_length_filter)
  also have "{s. s \<in> set ps} \<inter> set [1, 2, 3, 4, 5, 6::int] = set ps"
    using assms(2) unfolding s by auto
  also have "card (set ps) = length ps" using assms(1) by (rule distinct_card)
  finally show ?thesis .
qed

lemma length_sites_without:
  "r \<in> {1..6} \<Longrightarrow> length (filter (\<lambda>s. s \<noteq> r) [1, 2, 3, 4, 5, 6::int]) = 5"
  by auto


lemma deck_content_anion:
  "gjf_content (anion_deck dir ps r) =
     GAUSSIAN_HEADER_format (filename_base (anion_deck dir ps r)) (title (anion_deck dir ps r))
       (charge (anion_deck dir ps r)) (multiplicity (anion_deck dir ps r))
     @ join [NL] (all_atoms (anion_deck dir ps r)) @ [NL, NL]"
  by (simp add: anion_deck_def Let_def)

lemma deck_content_neutral:
  "gjf_content (neutral_deck dir ps r) =
     GAUSSIAN_HEADER_format (filename_base (neutral_deck dir ps r)) (title (neutral_deck dir ps r))
       (charge (neutral_deck dir ps r)) (multiplicity (neutral_deck dir ps r))
     @ join [NL] (all_atoms (neutral_deck dir ps r)) @ [NL, NL]"
  by (simp add: neutral_deck_def Let_def)

lemma removed_site_absent:
  assumes "r \<in> {1..6}"
  shows "''Cl '' @ SUBSTITUENT_COORDS ! nat (r - 1)
           \<notin> set (C_ATOMS @ map (site_line ps) (filter (\<lambda>s. s \<noteq> r) [1, 2, 3, 4, 5, 6]))
       \<and> ''H  '' @ SUBSTITUENT_COORDS ! nat (r - 1)
           \<notin> set (C_ATOMS @ map (site_line ps) (filter (\<lambda>s. s \<noteq> r) [1, 2, 3, 4, 5, 6]))"
proof -
  from assms have "r = 1 \<or> r = 2 \<or> r = 3 \<or> r = 4 \<or> r = 5 \<or> r = 6" by auto
  then show ?thesis
    by (elim disjE) (simp_all add: site_line_def SUBSTITUENT_COORDS_def C_ATOMS_def)
qed

lemma anion_fold_results:
  "results (foldl (anion_body d ps0) st ps) =
     results st @ map (\<lambda>r. (filepath (anion_deck d ps0 r), gjf_content (anion_deck d ps0 r))) ps"
  by (induction ps arbitrary: st) (simp_all add: anion_body_def Let_def write_file_def print_def)

lemma anion_fold_written:
  "written (foldl (anion_body d ps0) st ps) =
     written st @ map (\<lambda>r. (filepath (anion_deck d ps0 r), gjf_content (anion_deck d ps0 r))) ps"
  by (induction ps arbitrary: st) (simp_all add: anion_body_def Let_def write_file_def print_def)

lemma anion_fold_made_dirs:
  "made_dirs (foldl (anion_body d ps0) st ps) = made_dirs st"
  by (induction ps arbitrary: st) (simp_all add: anion_body_def Let_def write_file_def print_def)

lemma anion_fold_filepath:
  "filepath_var (foldl (anion_body d ps0) st ps) =
     (if ps = [] then filepath_var st else Some (filepath (anion_deck d ps0 (last ps))))"
  by (induction ps arbitrary: st) (simp_all add: anion_body_def Let_def write_file_def print_def)

lemma neutral_fold_results:
  "results (foldl (neutral_body d ps0) st ps) =
     results st @ map (\<lambda>r. (filepath (neutral_deck d ps0 r), gjf_content (neutral_deck d ps0 r))) ps"
  by (induction ps arbitrary: st) (simp_all add: neutral_body_def Let_def write_file_def print_def)

lemma neutral_fold_written:
  "written (foldl (neutral_body d ps0) st ps) =
     written st @ map (\<lambda>r. (filepath (neutral_deck d ps0 r), gjf_content (neutral_deck d ps0 r))) ps"
  by (induction ps arbitrary: st) (simp_all add: neutral_body_def Let_def write_file_def print_def)

lemma neutral_fold_made_dirs:
  "made_dirs (foldl (neutral_body d ps0) st ps) = made_dirs st"
  by (induction ps arbitrary: st) (simp_all add: neutral_body_def Let_def write_file_def print_def)

lemma neutral_fold_filepath:
  "filepath_var (foldl (neutral_body d ps0) st ps) =
     (if ps = [] then filepath_var st else Some (filepath (neutral_deck d ps0 (last ps))))"
  by (induction ps arbitrary: st) (simp_all add: neutral_body_def Let_def write_file_def print_def)

lemma anion_loop_results:
  "results (anion_loop env ps w) =
     map (\<lambda>r. (filepath (anion_deck (output_dir env) ps r),
               gjf_content (anion_deck (output_dir env) ps r))) ps"
  by (simp add: anion_loop_def Let_def anion_fold_results enter_def makedirs_def)

lemma neutral_loop_results:
  "results (neutral_loop env ps w) =
     map (\<lambda>r. (filepath (neutral_deck (output_dir env) ps r),
               gjf_content (neutral_deck (output_dir env) ps r))) ps"
  by (simp add: neutral_loop_def Let_def neutral_fold_results enter_def makedirs_def)

lemma anion_loop_written:
  "written (anion_loop env ps w) =
     written w @ map (\<lambda>r. (filepath (anion_deck (output_dir env) ps r),
               gjf_content (anion_deck (output_dir env) ps r))) ps"
  by (simp add: anion_loop_def Let_def anion_fold_written enter_def makedirs_def)

lemma neutral_loop_written:
  "written (neutral_loop env ps w) =
     written w @ map (\<lambda>r. (filepath (neutral_deck (output_dir env) ps r),
               gjf_content (neutral_deck (output_dir env) ps r))) ps"
  by (simp add: neutral_loop_def Let_def neutral_fold_written enter_def makedirs_def)

lemma anion_loop_filepath:
  "filepath_var (anion_loop env ps w) =
     (if ps = [] then None else Some (filepath (anion_deck (output_dir env) ps (last ps))))"
  by (simp add: anion_loop_def Let_def anion_fold_filepath enter_def makedirs_def)

lemma neutral_loop_filepath:
  "filepath_var (neutral_loop env ps w) =
     (if ps = [] then None else Some (filepath (neutral_deck (output_dir env) ps (last ps))))"
  by (simp add: neutral_loop_def Let_def neutral_fold_filepath enter_def makedirs_def)

lemma anion_call_written:
  "written (snd (generate_anion_intermediates env ps w)) =
     written w @
     map (\<lambda>r. (filepath (anion_deck (output_dir env) ps r),
               GAUSSIAN_HEADER_format (filename_base (anion_deck (output_dir env) ps r))
                 (title (anion_deck (output_dir env) ps r)) ''-1'' ''0''
               @ join [NL] (all_atoms (anion_deck (output_dir env) ps r)) @ [NL, NL])) ps"
proof -
  have "gjf_content (anion_deck (output_dir env) ps r) =
      GAUSSIAN_HEADER_format (filename_base (anion_deck (output_dir env) ps r))
        (title (anion_deck (output_dir env) ps r)) ''-1'' ''0''
      @ join [NL] (all_atoms (anion_deck (output_dir env) ps r)) @ [NL, NL]" for r
    by (simp add: anion_deck_def Let_def)
  then show ?thesis
    by (simp add: generate_anion_intermediates_def return_filepath_def anion_loop_written)
qed

lemma neutral_call_written:
  "written (snd (generate_neutral_radicals_intermediates env ps w)) =
     written w @
     map (\<lambda>r. (filepath (neutral_deck (output_dir env) ps r),
               GAUSSIAN_HEADER_format (filename_base (neutral_deck (output_dir env) ps r))
                 (title (neutral_deck (output_dir env) ps r)) ''0'' ''2''
               @ join [NL] (all_atoms (neutral_deck (output_dir env) ps r)) @ [NL, NL])) ps"
proof -
  have "gjf_content (neutral_deck (output_dir env) ps r) =
      GAUSSIAN_HEADER_format (filename_base (neutral_deck (output_dir env) ps r))
        (title (neutral_deck (output_dir env) ps r)) ''0'' ''2''
      @ join [NL] (all_atoms (neutral_deck (output_dir env) ps r)) @ [NL, NL]" for r
    by (simp add: neutral_deck_def Let_def)
  then show ?thesis
    by (simp add: generate_neutral_radicals_intermediates_def return_filepath_def
        neutral_loop_written)
qed

lemma anion_call_returns:
  "ps \<noteq> [] \<Longrightarrow> fst (generate_anion_intermediates env ps w) =
     Inr (filepath (anion_deck (output_dir env) ps (last ps)))"
  by (simp add: generate_anion_intermediates_def return_filepath_def anion_loop_filepath)

lemma neutral_call_returns:
  "ps \<noteq> [] \<Longrightarrow> fst (generate_neutral_radicals_intermediates env ps w) =
     Inr (filepath (neutral_deck (output_dir env) ps (last ps)))"
  by (simp add: generate_neutral_radicals_intermediates_def return_filepath_def
      neutral_loop_filepath)

text \<open>
  C1. For a position list \<open>ps\<close> that is not empty and whose positions are sites 1 to 6, one
  call of \<^verbatim>\<open>generate_anion_intermediates\<close> or of
  \<^verbatim>\<open>generate_neutral_radicals_intermediates\<close> returns normally and writes exactly
  \<open>length ps\<close> files, one intermediate for each position in the order of the list; the
  text of each file is the header, the atom lines of that intermediate and two line feeds.
  The atom list of each intermediate has exactly 11 lines, the 6 carbon lines first and
  after them the lines of the 5 sites other than the removed one, and no line of it,
  chlorine or hydrogen, is at the coordinates of the removed position's site.
\<close>

theorem intermediates_one_per_position:
  assumes "ps \<noteq> []" and "set ps \<subseteq> {1..6}"
  shows "fst (generate_anion_intermediates env ps w) =
           Inr (filepath (anion_deck (output_dir env) ps (last ps)))
       \<and> fst (generate_neutral_radicals_intermediates env ps w) =
           Inr (filepath (neutral_deck (output_dir env) ps (last ps)))
       \<and> written (snd (generate_anion_intermediates env ps w)) =
           written w @
           map (\<lambda>r. (filepath (anion_deck (output_dir env) ps r),
                     GAUSSIAN_HEADER_format (filename_base (anion_deck (output_dir env) ps r))
                       (title (anion_deck (output_dir env) ps r)) ''-1'' ''0''
                     @ join [NL] (all_atoms (anion_deck (output_dir env) ps r)) @ [NL, NL])) ps
       \<and> written (snd (generate_neutral_radicals_intermediates env ps w)) =
           written w @
           map (\<lambda>r. (filepath (neutral_deck (output_dir env) ps r),
                     GAUSSIAN_HEADER_format (filename_base (neutral_deck (output_dir env) ps r))
                       (title (neutral_deck (output_dir env) ps r)) ''0'' ''2''
                     @ join [NL] (all_atoms (neutral_deck (output_dir env) ps r)) @ [NL, NL])) ps
       \<and> length (written (snd (generate_anion_intermediates env ps w))) =
           length (written w) + length ps
       \<and> length (written (snd (generate_neutral_radicals_intermediates env ps w))) =
           length (written w) + length ps
       \<and> length (results (anion_loop env ps w)) = length ps
       \<and> length (results (neutral_loop env ps w)) = length ps
       \<and> written (snd (generate_anion_intermediates env ps w)) =
           written w @ results (anion_loop env ps w)
       \<and> written (snd (generate_neutral_radicals_intermediates env ps w)) =
           written w @ results (neutral_loop env ps w)
       \<and> (\<forall>r \<in> set ps.
            length (all_atoms (anion_deck (output_dir env) ps r)) = 11
          \<and> length (all_atoms (neutral_deck (output_dir env) ps r)) = 11
          \<and> take 6 (all_atoms (anion_deck (output_dir env) ps r)) = C_ATOMS
          \<and> take 6 (all_atoms (neutral_deck (output_dir env) ps r)) = C_ATOMS
          \<and> drop 6 (all_atoms (anion_deck (output_dir env) ps r)) =
              map (site_line ps) (filter (\<lambda>s. s \<noteq> r) [1, 2, 3, 4, 5, 6])
          \<and> drop 6 (all_atoms (neutral_deck (output_dir env) ps r)) =
              map (site_line ps) (filter (\<lambda>s. s \<noteq> r) [1, 2, 3, 4, 5, 6])
          \<and> length (drop 6 (all_atoms (anion_deck (output_dir env) ps r))) = 5
          \<and> length (drop 6 (all_atoms (neutral_deck (output_dir env) ps r))) = 5
          \<and> ''Cl '' @ SUBSTITUENT_COORDS ! nat (r - 1)
               \<notin> set (all_atoms (anion_deck (output_dir env) ps r))
          \<and> ''H  '' @ SUBSTITUENT_COORDS ! nat (r - 1)
               \<notin> set (all_atoms (anion_deck (output_dir env) ps r))
          \<and> ''Cl '' @ SUBSTITUENT_COORDS ! nat (r - 1)
               \<notin> set (all_atoms (neutral_deck (output_dir env) ps r))
          \<and> ''H  '' @ SUBSTITUENT_COORDS ! nat (r - 1)
               \<notin> set (all_atoms (neutral_deck (output_dir env) ps r)))"
proof -
  have six: "length C_ATOMS = 6" by (simp add: C_ATOMS_def)
  have atoms: "length (C_ATOMS @ map (site_line ps) (filter (\<lambda>s. s \<noteq> r) [1, 2, 3, 4, 5, 6])) = 11
      \<and> take 6 (C_ATOMS @ map (site_line ps) (filter (\<lambda>s. s \<noteq> r) [1, 2, 3, 4, 5, 6])) = C_ATOMS
      \<and> drop 6 (C_ATOMS @ map (site_line ps) (filter (\<lambda>s. s \<noteq> r) [1, 2, 3, 4, 5, 6])) =
          map (site_line ps) (filter (\<lambda>s. s \<noteq> r) [1, 2, 3, 4, 5, 6])
      \<and> length (drop 6 (C_ATOMS @ map (site_line ps) (filter (\<lambda>s. s \<noteq> r) [1, 2, 3, 4, 5, 6]))) = 5"
    if "r \<in> set ps" for r
  proof -
    from that assms(2) have "r \<in> {1..6}" by blast
    then have "length (filter (\<lambda>s. s \<noteq> r) [1, 2, 3, 4, 5, 6::int]) = 5"
      by (rule length_sites_without)
    with six show ?thesis by simp
  qed
  have absent: "''Cl '' @ SUBSTITUENT_COORDS ! nat (r - 1)
           \<notin> set (C_ATOMS @ map (site_line ps) (filter (\<lambda>s. s \<noteq> r) [1, 2, 3, 4, 5, 6]))
       \<and> ''H  '' @ SUBSTITUENT_COORDS ! nat (r - 1)
           \<notin> set (C_ATOMS @ map (site_line ps) (filter (\<lambda>s. s \<noteq> r) [1, 2, 3, 4, 5, 6]))"
    if "r \<in> set ps" for r
    using that assms(2) by (intro removed_site_absent) blast
  have per_site: "\<forall>r \<in> set ps.
            length (all_atoms (anion_deck (output_dir env) ps r)) = 11
          \<and> length (all_atoms (neutral_deck (output_dir env) ps r)) = 11
          \<and> take 6 (all_atoms (anion_deck (output_dir env) ps r)) = C_ATOMS
          \<and> take 6 (all_atoms (neutral_deck (output_dir env) ps r)) = C_ATOMS
          \<and> drop 6 (all_atoms (anion_deck (output_dir env) ps r)) =
              map (site_line ps) (filter (\<lambda>s. s \<noteq> r) [1, 2, 3, 4, 5, 6])
          \<and> drop 6 (all_atoms (neutral_deck (output_dir env) ps r)) =
              map (site_line ps) (filter (\<lambda>s. s \<noteq> r) [1, 2, 3, 4, 5, 6])
          \<and> length (drop 6 (all_atoms (anion_deck (output_dir env) ps r))) = 5
          \<and> length (drop 6 (all_atoms (neutral_deck (output_dir env) ps r))) = 5
          \<and> ''Cl '' @ SUBSTITUENT_COORDS ! nat (r - 1)
               \<notin> set (all_atoms (anion_deck (output_dir env) ps r))
          \<and> ''H  '' @ SUBSTITUENT_COORDS ! nat (r - 1)
               \<notin> set (all_atoms (anion_deck (output_dir env) ps r))
          \<and> ''Cl '' @ SUBSTITUENT_COORDS ! nat (r - 1)
               \<notin> set (all_atoms (neutral_deck (output_dir env) ps r))
          \<and> ''H  '' @ SUBSTITUENT_COORDS ! nat (r - 1)
               \<notin> set (all_atoms (neutral_deck (output_dir env) ps r))"
  proof
    fix r
    assume r: "r \<in> set ps"
    from atoms [OF r] absent [OF r]
    show "length (all_atoms (anion_deck (output_dir env) ps r)) = 11
          \<and> length (all_atoms (neutral_deck (output_dir env) ps r)) = 11
          \<and> take 6 (all_atoms (anion_deck (output_dir env) ps r)) = C_ATOMS
          \<and> take 6 (all_atoms (neutral_deck (output_dir env) ps r)) = C_ATOMS
          \<and> drop 6 (all_atoms (anion_deck (output_dir env) ps r)) =
              map (site_line ps) (filter (\<lambda>s. s \<noteq> r) [1, 2, 3, 4, 5, 6])
          \<and> drop 6 (all_atoms (neutral_deck (output_dir env) ps r)) =
              map (site_line ps) (filter (\<lambda>s. s \<noteq> r) [1, 2, 3, 4, 5, 6])
          \<and> length (drop 6 (all_atoms (anion_deck (output_dir env) ps r))) = 5
          \<and> length (drop 6 (all_atoms (neutral_deck (output_dir env) ps r))) = 5
          \<and> ''Cl '' @ SUBSTITUENT_COORDS ! nat (r - 1)
               \<notin> set (all_atoms (anion_deck (output_dir env) ps r))
          \<and> ''H  '' @ SUBSTITUENT_COORDS ! nat (r - 1)
               \<notin> set (all_atoms (anion_deck (output_dir env) ps r))
          \<and> ''Cl '' @ SUBSTITUENT_COORDS ! nat (r - 1)
               \<notin> set (all_atoms (neutral_deck (output_dir env) ps r))
          \<and> ''H  '' @ SUBSTITUENT_COORDS ! nat (r - 1)
               \<notin> set (all_atoms (neutral_deck (output_dir env) ps r))"
      unfolding anion_atoms neutral_atoms by blast
  qed
  have wa: "written (snd (generate_anion_intermediates env ps w)) =
      written w @ results (anion_loop env ps w)"
    by (simp add: generate_anion_intermediates_def return_filepath_def anion_loop_written
        anion_loop_results)
  have wn: "written (snd (generate_neutral_radicals_intermediates env ps w)) =
      written w @ results (neutral_loop env ps w)"
    by (simp add: generate_neutral_radicals_intermediates_def return_filepath_def
        neutral_loop_written neutral_loop_results)
  have la: "length (results (anion_loop env ps w)) = length ps"
    by (simp add: anion_loop_results)
  have ln: "length (results (neutral_loop env ps w)) = length ps"
    by (simp add: neutral_loop_results)
  have lwa: "length (written (snd (generate_anion_intermediates env ps w))) =
      length (written w) + length ps"
    unfolding wa using la by simp
  have lwn: "length (written (snd (generate_neutral_radicals_intermediates env ps w))) =
      length (written w) + length ps"
    unfolding wn using ln by simp
  from anion_call_returns [OF assms(1), of env w] neutral_call_returns [OF assms(1), of env w]
    anion_call_written [of env ps w] neutral_call_written [of env ps w]
    lwa lwn la ln wa wn per_site
  show ?thesis by (intro conjI)
qed


theorem intermediates_one_per_position_witness:
  "fst (generate_anion_intermediates None [1, 2, 3] \<lparr>made_dirs = [], written = [], printed = []\<rparr>) =
     Inr ''geometry_input/12_ClBzAnionIntermediate.gjf''
   \<and> map fst (written (snd (generate_anion_intermediates None [1, 2, 3]
         \<lparr>made_dirs = [], written = [], printed = []\<rparr>))) =
       [''geometry_input/_23ClBzAnionIntermediate.gjf'',
        ''geometry_input/1_3ClBzAnionIntermediate.gjf'',
        ''geometry_input/12_ClBzAnionIntermediate.gjf'']
   \<and> length (written (snd (generate_neutral_radicals_intermediates None [1, 2, 3]
         \<lparr>made_dirs = [], written = [], printed = []\<rparr>))) = 3
   \<and> length (all_atoms (anion_deck ''geometry_input'' [1, 2, 3] 2)) = 11
   \<and> length (all_atoms (neutral_deck ''geometry_input'' [1, 2, 3] 2)) = 11
   \<and> ''Cl -4.76193   1.03987 -0.00000'' \<notin> set (all_atoms (anion_deck ''geometry_input'' [1, 2, 3] 2))
   \<and> ''H  -4.76193   1.03987 -0.00000'' \<notin> set (all_atoms (anion_deck ''geometry_input'' [1, 2, 3] 2))"
proof -
  have a: "[1, 2, 3::int] \<noteq> []" by simp
  have b: "set [1, 2, 3::int] \<subseteq> {1..6}" by simp
  have c: "output_dir None = ''geometry_input''" by (simp add: output_dir_def)
  have d: "SUBSTITUENT_COORDS ! nat (2 - 1) = ''-4.76193   1.03987 -0.00000''"
    by (simp add: SUBSTITUENT_COORDS_def)
  have f: "filepath (anion_deck ''geometry_input'' [1, 2, 3] 1) =
        ''geometry_input/_23ClBzAnionIntermediate.gjf''"
      "filepath (anion_deck ''geometry_input'' [1, 2, 3] 2) =
        ''geometry_input/1_3ClBzAnionIntermediate.gjf''"
      "filepath (anion_deck ''geometry_input'' [1, 2, 3] 3) =
        ''geometry_input/12_ClBzAnionIntermediate.gjf''"
    by (simp_all add: anion_deck_def Let_def pattern_of_sites path_join_def)
  from intermediates_one_per_position [OF a b, of None "\<lparr>made_dirs = [], written = [], printed = []\<rparr>"]
  show ?thesis unfolding c using d f by simp
qed

lemma element_of_Cl: "element_of (''Cl '' @ c) = ''Cl''"
  by (simp add: element_of_def)

lemma element_of_H: "element_of (''H  '' @ c) = ''H''"
  by (simp add: element_of_def)

lemma element_of_site_line:
  "element_of (site_line ps s) = (if s \<in> set ps then ''Cl'' else ''H'')"
  by (simp add: site_line_def element_of_def)

lemma count_chlorine_lines:
  assumes "distinct ps" and "set ps \<subseteq> {1..6}"
  shows "length (filter (\<lambda>a. element_of a = ''Cl'') (map (site_line ps) [1, 2, 3, 4, 5, 6])) = length ps"
proof -
  have "filter (\<lambda>a. element_of a = ''Cl'') (map (site_line ps) [1, 2, 3, 4, 5, 6])
      = map (site_line ps) (filter (\<lambda>s. s \<in> set ps) [1, 2, 3, 4, 5, 6])"
    by (simp only: filter_map comp_def element_of_site_line) simp
  then show ?thesis using count_sites [OF assms] by (simp del: filter.simps)
qed

lemma count_hydrogen_lines:
  assumes "distinct ps" and "set ps \<subseteq> {1..6}"
  shows "length (filter (\<lambda>a. element_of a = ''H'') (map (site_line ps) [1, 2, 3, 4, 5, 6])) = 6 - length ps"
proof -
  have "filter (\<lambda>a. element_of a = ''H'') (map (site_line ps) [1, 2, 3, 4, 5, 6])
      = map (site_line ps) (filter (\<lambda>s. \<not> s \<in> set ps) [1, 2, 3, 4, 5, 6])"
    by (simp only: filter_map comp_def element_of_site_line) simp
  moreover have "length (filter (\<lambda>s. \<not> s \<in> set ps) [1, 2, 3, 4, 5, 6::int])
      = length [1, 2, 3, 4, 5, 6::int] - length (filter (\<lambda>s. s \<in> set ps) [1, 2, 3, 4, 5, 6::int])"
    using sum_length_filter_compl [of "\<lambda>s. s \<in> set ps" "[1, 2, 3, 4, 5, 6::int]"] by linarith
  ultimately show ?thesis using count_sites [OF assms] by (simp del: filter.simps)
qed

text \<open>
  C2. For a position list \<open>ps\<close> without repetition whose positions are sites 1 to 6, the
  geometry of \<^verbatim>\<open>generate_gjf_files\<close> has exactly 12 atom lines: the 6 carbon lines first,
  then one line for each site 1 to 6 in that order, a chlorine line where the site is in
  \<open>ps\<close> and a hydrogen line elsewhere, each with the site's coordinates from the table.
  Exactly \<open>length ps\<close> of the six are chlorine and \<open>6 - length ps\<close> are hydrogen, and the
  returned content is the header, these lines and two line feeds.
\<close>

theorem gjf_geometry:
  assumes "distinct ps" and "set ps \<subseteq> {1..6}"
  shows "length (all_atoms (gjf_deck dir ps)) = 12
       \<and> take 6 (all_atoms (gjf_deck dir ps)) = C_ATOMS
       \<and> drop 6 (all_atoms (gjf_deck dir ps)) =
           map (\<lambda>site. (if site \<in> set ps then ''Cl '' else ''H  '')
                        @ SUBSTITUENT_COORDS ! nat (site - 1)) [1, 2, 3, 4, 5, 6]
       \<and> length (filter (\<lambda>a. element_of a = ''Cl'') (drop 6 (all_atoms (gjf_deck dir ps)))) = length ps
       \<and> length (filter (\<lambda>a. element_of a = ''H'') (drop 6 (all_atoms (gjf_deck dir ps)))) = 6 - length ps
       \<and> fst (generate_gjf_files env ps w) =
           (filepath (gjf_deck (output_dir env) ps),
            GAUSSIAN_HEADER_format (filename_base (gjf_deck (output_dir env) ps))
              (title (gjf_deck (output_dir env) ps)) ''0'' ''1''
            @ join [NL] (all_atoms (gjf_deck (output_dir env) ps)) @ [NL, NL])"
proof -
  have len: "length C_ATOMS = 6" by (simp add: C_ATOMS_def)
  have d: "drop 6 (all_atoms (gjf_deck dir ps)) = map (site_line ps) [1, 2, 3, 4, 5, 6]"
    unfolding gjf_atoms using len by simp
  have t: "take 6 (all_atoms (gjf_deck dir ps)) = C_ATOMS"
    unfolding gjf_atoms using len by simp
  have l: "length (all_atoms (gjf_deck dir ps)) = 12"
    unfolding gjf_atoms using len by simp
  have c: "length (filter (\<lambda>a. element_of a = ''Cl'') (drop 6 (all_atoms (gjf_deck dir ps)))) = length ps"
    unfolding d using assms by (rule count_chlorine_lines)
  have h: "length (filter (\<lambda>a. element_of a = ''H'') (drop 6 (all_atoms (gjf_deck dir ps)))) = 6 - length ps"
    unfolding d using assms by (rule count_hydrogen_lines)
  have s: "map (site_line ps) [1, 2, 3, 4, 5, 6] =
      map (\<lambda>site. (if site \<in> set ps then ''Cl '' else ''H  '')
                        @ SUBSTITUENT_COORDS ! nat (site - 1)) [1, 2, 3, 4, 5, 6]"
    by (simp add: site_line_def)
  have g: "fst (generate_gjf_files env ps w) =
           (filepath (gjf_deck (output_dir env) ps),
            GAUSSIAN_HEADER_format (filename_base (gjf_deck (output_dir env) ps))
              (title (gjf_deck (output_dir env) ps)) ''0'' ''1''
            @ join [NL] (all_atoms (gjf_deck (output_dir env) ps)) @ [NL, NL])"
    by (simp add: generate_gjf_files_def gjf_deck_def Let_def)
  from l t d s c h g show ?thesis by (simp only:)
qed

theorem gjf_geometry_witness:
  "all_atoms (gjf_deck ''geometry_input'' [1, 3, 5]) =
     C_ATOMS @
     [''Cl -4.67483  -2.13035  0.00000'',
      ''H  -4.76193   1.03987 -0.00000'',
      ''Cl  0.81614  -1.97951  0.00000'',
      ''H  -1.88580  -3.64003  0.00000'',
      ''Cl -2.05998   2.70040 -0.00000'',
      ''H   0.72905   1.19071  0.00000'']"
proof -
  have a: "distinct [1, 3, 5::int]" by simp
  have b: "set [1, 3, 5::int] \<subseteq> {1..6}" by simp
  have c: "length C_ATOMS = 6" by (simp add: C_ATOMS_def)
  from gjf_geometry [OF a b, of "''geometry_input''"]
  have t: "take 6 (all_atoms (gjf_deck ''geometry_input'' [1, 3, 5])) = C_ATOMS"
    and d: "drop 6 (all_atoms (gjf_deck ''geometry_input'' [1, 3, 5])) =
      map (\<lambda>site. (if site \<in> set [1, 3, 5] then ''Cl '' else ''H  '')
                        @ SUBSTITUENT_COORDS ! nat (site - 1)) [1, 2, 3, 4, 5, 6]"
    by simp_all
  have "all_atoms (gjf_deck ''geometry_input'' [1, 3, 5]) =
      take 6 (all_atoms (gjf_deck ''geometry_input'' [1, 3, 5]))
      @ drop 6 (all_atoms (gjf_deck ''geometry_input'' [1, 3, 5]))"
    by simp
  then show ?thesis unfolding t d by (simp add: SUBSTITUENT_COORDS_def)
qed


lemma element_of_carbon: "a \<in> set C_ATOMS \<Longrightarrow> element_of a = ''C''"
  by (auto simp: C_ATOMS_def element_of_def)

lemma filter_carbon_Cl: "filter (\<lambda>a. element_of a = ''Cl'') C_ATOMS = []"
  by (simp add: C_ATOMS_def element_of_def)

lemma filter_carbon_H: "filter (\<lambda>a. element_of a = ''H'') C_ATOMS = []"
  by (simp add: C_ATOMS_def element_of_def)

lemma single_site_lines:
  "map (site_line [p]) (filter (\<lambda>s. s \<noteq> p) js) =
     map (\<lambda>s. ''H  '' @ SUBSTITUENT_COORDS ! nat (s - 1)) (filter (\<lambda>s. s \<noteq> p) js)"
  by (induction js) (simp_all add: site_line_def)

lemma hydrogen_lines_Cl:
  "filter (\<lambda>a. element_of a = ''Cl'') (map (\<lambda>s. ''H  '' @ f s) xs) = []"
  by (induction xs) (simp_all add: element_of_def)

lemma hydrogen_lines_H:
  "filter (\<lambda>a. element_of a = ''H'') (map (\<lambda>s. ''H  '' @ f s) xs) = map (\<lambda>s. ''H  '' @ f s) xs"
  by (induction xs) (simp_all add: element_of_def)

lemma single_anion_text:
  "GAUSSIAN_HEADER_format (filename_base (anion_deck ''geometry_input'' [1] 1))
     (title (anion_deck ''geometry_input'' [1] 1)) ''-1'' ''0''
   @ join [NL] (all_atoms (anion_deck ''geometry_input'' [1] 1)) @ [NL, NL] =
     ''%mem=8GB'' @ [NL] @
     ''%nprocshare=4'' @ [NL] @
     ''%chk=geometry_chks/_ClBzAnionIntermediate.chk'' @ [NL] @
     ''# opt am1'' @ [NL] @
     [NL] @
     ''Anion Intermediate (removed 1) _'' @ [NL] @
     [NL] @
     ''-1 0'' @ [NL] @
     ''C  -3.20928   0.19943  0.00000'' @ [NL] @
     ''C  -2.01150   0.93555  0.00000'' @ [NL] @
     ''C  -0.77511   0.26630  0.00000'' @ [NL] @
     ''C  -0.73650  -1.13907  0.00000'' @ [NL] @
     ''C  -1.93429  -1.87519  0.00000'' @ [NL] @
     ''C  -3.17067  -1.20594  0.00000'' @ [NL] @
     ''H  -4.76193   1.03987 -0.00000'' @ [NL] @
     ''H   0.81614  -1.97951  0.00000'' @ [NL] @
     ''H  -1.88580  -3.64003  0.00000'' @ [NL] @
     ''H  -2.05998   2.70040 -0.00000'' @ [NL] @
     ''H   0.72905   1.19071  0.00000'' @ [NL] @
     [NL]"
proof -
  have p: "pattern_of [1] 1 = ''_''" unfolding pattern_of_sites by simp
  have n: "filename_base (anion_deck ''geometry_input'' [1] 1) = ''_ClBzAnionIntermediate''"
    "title (anion_deck ''geometry_input'' [1] 1) = ''Anion Intermediate (removed 1) _''"
    by (simp_all add: anion_deck_def Let_def p py_str_site)
  show ?thesis
    unfolding n anion_atoms
    by (simp add: GAUSSIAN_HEADER_format_def site_line_def C_ATOMS_def SUBSTITUENT_COORDS_def)
qed

text \<open>
  C3, as stated, fails: for the list with the single position 1 the one file that a call
  writes keeps the hydrogen lines of the five other sites, so the atom list of the
  intermediate is not the six carbon lines alone.
\<close>

theorem single_position_intermediate_counterexample:
  "written (snd (generate_anion_intermediates None [1]
       \<lparr>made_dirs = [], written = [], printed = []\<rparr>)) =
     [(''geometry_input/_ClBzAnionIntermediate.gjf'',
       ''%mem=8GB'' @ [NL] @
       ''%nprocshare=4'' @ [NL] @
       ''%chk=geometry_chks/_ClBzAnionIntermediate.chk'' @ [NL] @
       ''# opt am1'' @ [NL] @
       [NL] @
       ''Anion Intermediate (removed 1) _'' @ [NL] @
       [NL] @
       ''-1 0'' @ [NL] @
       ''C  -3.20928   0.19943  0.00000'' @ [NL] @
       ''C  -2.01150   0.93555  0.00000'' @ [NL] @
       ''C  -0.77511   0.26630  0.00000'' @ [NL] @
       ''C  -0.73650  -1.13907  0.00000'' @ [NL] @
       ''C  -1.93429  -1.87519  0.00000'' @ [NL] @
       ''C  -3.17067  -1.20594  0.00000'' @ [NL] @
       ''H  -4.76193   1.03987 -0.00000'' @ [NL] @
       ''H   0.81614  -1.97951  0.00000'' @ [NL] @
       ''H  -1.88580  -3.64003  0.00000'' @ [NL] @
       ''H  -2.05998   2.70040 -0.00000'' @ [NL] @
       ''H   0.72905   1.19071  0.00000'' @ [NL] @
       [NL])]
   \<and> length (results (anion_loop None [1] \<lparr>made_dirs = [], written = [], printed = []\<rparr>)) = 1
   \<and> all_atoms (anion_deck ''geometry_input'' [1] 1) \<noteq> C_ATOMS
   \<and> drop 6 (all_atoms (anion_deck ''geometry_input'' [1] 1)) =
       [''H  -4.76193   1.03987 -0.00000'',
        ''H   0.81614  -1.97951  0.00000'',
        ''H  -1.88580  -3.64003  0.00000'',
        ''H  -2.05998   2.70040 -0.00000'',
        ''H   0.72905   1.19071  0.00000'']
   \<and> all_atoms (neutral_deck ''geometry_input'' [1] 1) \<noteq> C_ATOMS"
proof -
  have c: "output_dir None = ''geometry_input''" by (simp add: output_dir_def)
  have f: "filepath (anion_deck ''geometry_input'' [1] 1) =
      ''geometry_input/_ClBzAnionIntermediate.gjf''"
    by (simp add: anion_deck_def Let_def pattern_of_sites path_join_def)
  have w: "written (snd (generate_anion_intermediates None [1]
       \<lparr>made_dirs = [], written = [], printed = []\<rparr>)) =
     [(filepath (anion_deck ''geometry_input'' [1] 1),
       GAUSSIAN_HEADER_format (filename_base (anion_deck ''geometry_input'' [1] 1))
         (title (anion_deck ''geometry_input'' [1] 1)) ''-1'' ''0''
       @ join [NL] (all_atoms (anion_deck ''geometry_input'' [1] 1)) @ [NL, NL])]"
    unfolding anion_call_written c by simp
  have rest: "length (results (anion_loop None [1] \<lparr>made_dirs = [], written = [], printed = []\<rparr>)) = 1
   \<and> all_atoms (anion_deck ''geometry_input'' [1] 1) \<noteq> C_ATOMS
   \<and> drop 6 (all_atoms (anion_deck ''geometry_input'' [1] 1)) =
       [''H  -4.76193   1.03987 -0.00000'',
        ''H   0.81614  -1.97951  0.00000'',
        ''H  -1.88580  -3.64003  0.00000'',
        ''H  -2.05998   2.70040 -0.00000'',
        ''H   0.72905   1.19071  0.00000'']
   \<and> all_atoms (neutral_deck ''geometry_input'' [1] 1) \<noteq> C_ATOMS"
    by (simp add: anion_loop_results anion_atoms neutral_atoms site_line_def
        SUBSTITUENT_COORDS_def C_ATOMS_def)
  from w rest show ?thesis unfolding f single_anion_text by blast
qed

text \<open>
  C3, amended. For a list with a single position \<open>p\<close>, a site from 1 to 6, a call of
  either derivation returns the path of the one file it writes, the one intermediate. Its
  text is the header, 11 atom lines and two line feeds: the 6 carbon lines and the hydrogen
  lines of the 5 sites other than \<open>p\<close>. No line of its atom list is a chlorine line.
\<close>

theorem single_position_intermediate:
  assumes "p \<in> {1..6}"
  shows "fst (generate_anion_intermediates env [p] w) =
           Inr (filepath (anion_deck (output_dir env) [p] p))
       \<and> fst (generate_neutral_radicals_intermediates env [p] w) =
           Inr (filepath (neutral_deck (output_dir env) [p] p))
       \<and> written (snd (generate_anion_intermediates env [p] w)) =
           written w @
           [(filepath (anion_deck (output_dir env) [p] p),
             GAUSSIAN_HEADER_format (filename_base (anion_deck (output_dir env) [p] p))
               (title (anion_deck (output_dir env) [p] p)) ''-1'' ''0''
             @ join [NL] (C_ATOMS @ map (\<lambda>s. ''H  '' @ SUBSTITUENT_COORDS ! nat (s - 1))
                                       (filter (\<lambda>s. s \<noteq> p) [1, 2, 3, 4, 5, 6]))
             @ [NL, NL])]
       \<and> written (snd (generate_neutral_radicals_intermediates env [p] w)) =
           written w @
           [(filepath (neutral_deck (output_dir env) [p] p),
             GAUSSIAN_HEADER_format (filename_base (neutral_deck (output_dir env) [p] p))
               (title (neutral_deck (output_dir env) [p] p)) ''0'' ''2''
             @ join [NL] (C_ATOMS @ map (\<lambda>s. ''H  '' @ SUBSTITUENT_COORDS ! nat (s - 1))
                                       (filter (\<lambda>s. s \<noteq> p) [1, 2, 3, 4, 5, 6]))
             @ [NL, NL])]
       \<and> length (results (anion_loop env [p] w)) = 1
       \<and> length (results (neutral_loop env [p] w)) = 1
       \<and> all_atoms (anion_deck dir [p] p) =
           C_ATOMS @ map (\<lambda>s. ''H  '' @ SUBSTITUENT_COORDS ! nat (s - 1))
                         (filter (\<lambda>s. s \<noteq> p) [1, 2, 3, 4, 5, 6])
       \<and> all_atoms (neutral_deck dir [p] p) = all_atoms (anion_deck dir [p] p)
       \<and> length (all_atoms (anion_deck dir [p] p)) = 11
       \<and> filter (\<lambda>a. element_of a = ''Cl'') (all_atoms (anion_deck dir [p] p)) = []
       \<and> length (filter (\<lambda>a. element_of a = ''H'') (all_atoms (anion_deck dir [p] p))) = 5"
proof -
  have five: "length (filter (\<lambda>s. s \<noteq> p) [1, 2, 3, 4, 5, 6::int]) = 5"
    using assms by (rule length_sites_without)
  have a: "all_atoms (anion_deck d [p] p) =
      C_ATOMS @ map (\<lambda>s. ''H  '' @ SUBSTITUENT_COORDS ! nat (s - 1))
                    (filter (\<lambda>s. s \<noteq> p) [1, 2, 3, 4, 5, 6])" for d
    by (simp only: anion_atoms single_site_lines)
  have n: "all_atoms (neutral_deck d [p] p) = all_atoms (anion_deck d [p] p)" for d
    by (simp only: anion_atoms neutral_atoms)
  have l: "length (all_atoms (anion_deck dir [p] p)) = 11"
    unfolding a using five by (simp add: C_ATOMS_def del: filter.simps)
  have c: "filter (\<lambda>a. element_of a = ''Cl'') (all_atoms (anion_deck dir [p] p)) = []"
    by (simp only: a filter_append filter_carbon_Cl hydrogen_lines_Cl append_Nil)
  have "filter (\<lambda>a. element_of a = ''H'') (all_atoms (anion_deck dir [p] p)) =
      map (\<lambda>s. ''H  '' @ SUBSTITUENT_COORDS ! nat (s - 1))
                    (filter (\<lambda>s. s \<noteq> p) [1, 2, 3, 4, 5, 6])"
    by (simp only: a filter_append filter_carbon_H hydrogen_lines_H append_Nil)
  then have h: "length (filter (\<lambda>a. element_of a = ''H'') (all_atoms (anion_deck dir [p] p))) = 5"
    using five by (simp only: length_map)
  have r: "length (results (anion_loop env [p] w)) = 1"
       "length (results (neutral_loop env [p] w)) = 1"
    by (simp_all add: anion_loop_results neutral_loop_results)
  have ne: "[p] \<noteq> []" by simp
  have ra: "fst (generate_anion_intermediates env [p] w) =
           Inr (filepath (anion_deck (output_dir env) [p] p))"
    using anion_call_returns [OF ne, of env w] by simp
  have rn: "fst (generate_neutral_radicals_intermediates env [p] w) =
           Inr (filepath (neutral_deck (output_dir env) [p] p))"
    using neutral_call_returns [OF ne, of env w] by simp
  have wa: "written (snd (generate_anion_intermediates env [p] w)) =
           written w @
           [(filepath (anion_deck (output_dir env) [p] p),
             GAUSSIAN_HEADER_format (filename_base (anion_deck (output_dir env) [p] p))
               (title (anion_deck (output_dir env) [p] p)) ''-1'' ''0''
             @ join [NL] (C_ATOMS @ map (\<lambda>s. ''H  '' @ SUBSTITUENT_COORDS ! nat (s - 1))
                                       (filter (\<lambda>s. s \<noteq> p) [1, 2, 3, 4, 5, 6]))
             @ [NL, NL])]"
    by (simp add: anion_call_written a del: filter.simps)
  have wn: "written (snd (generate_neutral_radicals_intermediates env [p] w)) =
           written w @
           [(filepath (neutral_deck (output_dir env) [p] p),
             GAUSSIAN_HEADER_format (filename_base (neutral_deck (output_dir env) [p] p))
               (title (neutral_deck (output_dir env) [p] p)) ''0'' ''2''
             @ join [NL] (C_ATOMS @ map (\<lambda>s. ''H  '' @ SUBSTITUENT_COORDS ! nat (s - 1))
                                       (filter (\<lambda>s. s \<noteq> p) [1, 2, 3, 4, 5, 6]))
             @ [NL, NL])]"
    by (simp add: neutral_call_written n a del: filter.simps)
  from ra rn wa wn r a [of dir] n [of dir] l c h show ?thesis by (intro conjI)
qed

theorem single_position_intermediate_witness:
  "written (snd (generate_neutral_radicals_intermediates None [1]
       \<lparr>made_dirs = [], written = [], printed = []\<rparr>)) =
     [(''geometry_input/_ClBzNeutralRadical.gjf'',
       ''%mem=8GB'' @ [NL] @
       ''%nprocshare=4'' @ [NL] @
       ''%chk=geometry_chks/_ClBzNeutralRadical.chk'' @ [NL] @
       ''# opt am1'' @ [NL] @
       [NL] @
       ''Neutral Radical (removed 1) _'' @ [NL] @
       [NL] @
       ''0 2'' @ [NL] @
       ''C  -3.20928   0.19943  0.00000'' @ [NL] @
       ''C  -2.01150   0.93555  0.00000'' @ [NL] @
       ''C  -0.77511   0.26630  0.00000'' @ [NL] @
       ''C  -0.73650  -1.13907  0.00000'' @ [NL] @
       ''C  -1.93429  -1.87519  0.00000'' @ [NL] @
       ''C  -3.17067  -1.20594  0.00000'' @ [NL] @
       ''H  -4.76193   1.03987 -0.00000'' @ [NL] @
       ''H   0.81614  -1.97951  0.00000'' @ [NL] @
       ''H  -1.88580  -3.64003  0.00000'' @ [NL] @
       ''H  -2.05998   2.70040 -0.00000'' @ [NL] @
       ''H   0.72905   1.19071  0.00000'' @ [NL] @
       [NL])]
   \<and> all_atoms (anion_deck ''geometry_input'' [1] 1) =
     C_ATOMS @
     [''H  -4.76193   1.03987 -0.00000'',
      ''H   0.81614  -1.97951  0.00000'',
      ''H  -1.88580  -3.64003  0.00000'',
      ''H  -2.05998   2.70040 -0.00000'',
      ''H   0.72905   1.19071  0.00000'']"
proof -
  have a: "(1::int) \<in> {1..6}" by simp
  have c: "output_dir None = ''geometry_input''" by (simp add: output_dir_def)
  have p: "pattern_of [1] 1 = ''_''" unfolding pattern_of_sites by simp
  have n: "filename_base (neutral_deck ''geometry_input'' [1] 1) = ''_ClBzNeutralRadical''"
    "title (neutral_deck ''geometry_input'' [1] 1) = ''Neutral Radical (removed 1) _''"
    "filepath (neutral_deck ''geometry_input'' [1] 1) = ''geometry_input/_ClBzNeutralRadical.gjf''"
    by (simp_all add: neutral_deck_def Let_def p py_str_site path_join_def)
  from single_position_intermediate [OF a, of None "\<lparr>made_dirs = [], written = [], printed = []\<rparr>" "''geometry_input''"]
  show ?thesis
    unfolding c n
    by (simp add: GAUSSIAN_HEADER_format_def SUBSTITUENT_COORDS_def C_ATOMS_def)
qed

text \<open>
  C4. The pattern of an intermediate is read off the sites 1 to 6 in order: the digit of a
  site that is in the list and is not the removed position, an underscore for the removed
  position when it is in the list, nothing for a site that is not in the list. The file
  name is the pattern followed by the suffix of the state. The list 1, 2, 3, 4, 5 with
  position 3 removed gives \<^verbatim>\<open>12_45ClBzAnionIntermediate\<close>.
\<close>

theorem intermediate_name:
  "pattern_of ps r =
     concat (map (\<lambda>i. if i \<in> set ps then (if i = r then ''_'' else [''123456'' ! nat (i - 1)]) else [])
                 [1, 2, 3, 4, 5, 6])
   \<and> filename_base (anion_deck dir ps r) = pattern_of ps r @ ''ClBzAnionIntermediate''
   \<and> filename_base (neutral_deck dir ps r) = pattern_of ps r @ ''ClBzNeutralRadical''
   \<and> filepath (anion_deck dir ps r) = path_join dir (pattern_of ps r @ ''ClBzAnionIntermediate.gjf'')
   \<and> filepath (neutral_deck dir ps r) = path_join dir (pattern_of ps r @ ''ClBzNeutralRadical.gjf'')
   \<and> pattern_of [1, 2, 3, 4, 5] 3 = ''12_45''
   \<and> filename_base (anion_deck dir [1, 2, 3, 4, 5] 3) = ''12_45ClBzAnionIntermediate''"
proof -
  have "pattern_of [1, 2, 3, 4, 5] 3 = ''12_45''"
    unfolding pattern_of_sites by simp
  then show ?thesis
    using pattern_of_sites [of ps r] by (simp add: anion_deck_def neutral_deck_def Let_def)
qed

theorem intermediate_name_witness:
  "filename_base (neutral_deck ''geometry_input'' [1, 2, 4] 2) = ''1_4ClBzNeutralRadical''
   \<and> filepath (neutral_deck ''geometry_input'' [1, 2, 4] 2) = ''geometry_input/1_4ClBzNeutralRadical.gjf''"
proof -
  from intermediate_name [of "[1, 2, 4]" 2 "''geometry_input''"]
  have p: "pattern_of [1, 2, 4] 2 = ''1_4''"
    and f: "filename_base (neutral_deck ''geometry_input'' [1, 2, 4] 2) = pattern_of [1, 2, 4] 2 @ ''ClBzNeutralRadical''"
    and g: "filepath (neutral_deck ''geometry_input'' [1, 2, 4] 2) =
        path_join ''geometry_input'' (pattern_of [1, 2, 4] 2 @ ''ClBzNeutralRadical.gjf'')"
    by simp_all
  show ?thesis unfolding f g p by (simp add: path_join_def)
qed

text \<open>
  C9. For a position list that is not empty each derivation returns one string, the file
  path of the intermediate written last, which is the first component of the last pair of
  \<^verbatim>\<open>results\<close>. The list \<^verbatim>\<open>results\<close> holds one pair for each position and is what was
  written, but it is not what is returned.
\<close>

theorem intermediates_return_last_filepath:
  assumes "ps \<noteq> []"
  shows "fst (generate_anion_intermediates env ps w) =
           Inr (filepath (anion_deck (output_dir env) ps (last ps)))
       \<and> fst (generate_anion_intermediates env ps w) =
           Inr (fst (last (results (anion_loop env ps w))))
       \<and> length (results (anion_loop env ps w)) = length ps
       \<and> written (snd (generate_anion_intermediates env ps w)) =
           written w @ results (anion_loop env ps w)
       \<and> fst (generate_neutral_radicals_intermediates env ps w) =
           Inr (filepath (neutral_deck (output_dir env) ps (last ps)))
       \<and> fst (generate_neutral_radicals_intermediates env ps w) =
           Inr (fst (last (results (neutral_loop env ps w))))
       \<and> length (results (neutral_loop env ps w)) = length ps
       \<and> written (snd (generate_neutral_radicals_intermediates env ps w)) =
           written w @ results (neutral_loop env ps w)"
  using assms
  by (simp add: generate_anion_intermediates_def generate_neutral_radicals_intermediates_def
      return_filepath_def anion_loop_filepath neutral_loop_filepath anion_loop_results
      neutral_loop_results anion_loop_written neutral_loop_written last_map)

theorem intermediates_return_last_filepath_witness:
  "fst (generate_anion_intermediates None [1, 2] \<lparr>made_dirs = [], written = [], printed = []\<rparr>) =
     Inr ''geometry_input/1_ClBzAnionIntermediate.gjf''
   \<and> length (results (anion_loop None [1, 2] \<lparr>made_dirs = [], written = [], printed = []\<rparr>)) = 2"
proof -
  have a: "[1, 2::int] \<noteq> []" by simp
  have f: "filepath (anion_deck ''geometry_input'' [1, 2] 2) = ''geometry_input/1_ClBzAnionIntermediate.gjf''"
    by (simp add: anion_deck_def Let_def pattern_of_sites path_join_def)
  from intermediates_return_last_filepath [OF a, of None "\<lparr>made_dirs = [], written = [], printed = []\<rparr>"]
  show ?thesis using f by (simp add: output_dir_def)
qed

text \<open>
  C10. For the empty position list each derivation makes the output directory, writes no
  file and ends with the error of reading the unbound variable \<^verbatim>\<open>filepath\<close>. A call
  returns a path exactly when its position list is not empty.
\<close>

theorem intermediates_of_empty_list:
  "generate_anion_intermediates env [] w = (Inl UnboundLocalError, makedirs (output_dir env) w)
   \<and> generate_neutral_radicals_intermediates env [] w =
       (Inl UnboundLocalError, makedirs (output_dir env) w)
   \<and> written (snd (generate_anion_intermediates env [] w)) = written w
   \<and> written (snd (generate_neutral_radicals_intermediates env [] w)) = written w
   \<and> ((\<exists>p. fst (generate_anion_intermediates env ps w) = Inr p) = (ps \<noteq> []))
   \<and> ((\<exists>p. fst (generate_neutral_radicals_intermediates env ps w) = Inr p) = (ps \<noteq> []))"
proof -
  have a: "generate_anion_intermediates env [] w = (Inl UnboundLocalError, makedirs (output_dir env) w)"
    by (simp add: generate_anion_intermediates_def return_filepath_def anion_loop_def enter_def
        makedirs_def Let_def)
  have n: "generate_neutral_radicals_intermediates env [] w =
      (Inl UnboundLocalError, makedirs (output_dir env) w)"
    by (simp add: generate_neutral_radicals_intermediates_def return_filepath_def neutral_loop_def
        enter_def makedirs_def Let_def)
  have ea: "(\<exists>p. fst (generate_anion_intermediates env ps w) = Inr p) = (ps \<noteq> [])"
    by (simp add: generate_anion_intermediates_def return_filepath_def anion_loop_filepath)
  have en: "(\<exists>p. fst (generate_neutral_radicals_intermediates env ps w) = Inr p) = (ps \<noteq> [])"
    by (simp add: generate_neutral_radicals_intermediates_def return_filepath_def
        neutral_loop_filepath)
  show ?thesis unfolding a n using ea en by (simp add: makedirs_def)
qed

theorem intermediates_of_empty_list_witness:
  "generate_anion_intermediates None [] \<lparr>made_dirs = [], written = [], printed = []\<rparr> =
     (Inl UnboundLocalError, \<lparr>made_dirs = [''geometry_input''], written = [], printed = []\<rparr>)"
  using intermediates_of_empty_list [of None "\<lparr>made_dirs = [], written = [], printed = []\<rparr>" "[]"]
  by (simp add: output_dir_def makedirs_def)

text \<open>
  C5. For every position list and every removed position the anion and the neutral radical
  derivations build the same atom list. Their decks are the one text \<open>intermediate_text\<close>
  at the two states, so they differ only where that text reads the state: the line of
  charge and multiplicity (\<^verbatim>\<open>-1 0\<close> and \<^verbatim>\<open>0 2\<close>), the title, and the suffix of the file
  name (\<^verbatim>\<open>ClBzAnionIntermediate\<close> and \<^verbatim>\<open>ClBzNeutralRadical\<close>).
\<close>

theorem anion_and_neutral_one_derivation:
  "all_atoms (anion_deck dir ps r) = all_atoms (neutral_deck dir ps r)
   \<and> gjf_content (anion_deck dir ps r) = intermediate_text Anion ps r
   \<and> gjf_content (neutral_deck dir ps r) = intermediate_text NeutralRadical ps r
   \<and> filename_base (anion_deck dir ps r) = pattern_of ps r @ state_suffix Anion
   \<and> filename_base (neutral_deck dir ps r) = pattern_of ps r @ state_suffix NeutralRadical
   \<and> title (anion_deck dir ps r) =
       state_title Anion @ '' (removed '' @ py_str r @ '') '' @ pattern_of ps r
   \<and> title (neutral_deck dir ps r) =
       state_title NeutralRadical @ '' (removed '' @ py_str r @ '') '' @ pattern_of ps r
   \<and> charge (anion_deck dir ps r) @ '' '' @ multiplicity (anion_deck dir ps r) = state_line Anion
   \<and> charge (neutral_deck dir ps r) @ '' '' @ multiplicity (neutral_deck dir ps r) =
       state_line NeutralRadical"
proof -
  have a: "gjf_content (anion_deck dir ps r) = intermediate_text Anion ps r"
    unfolding deck_content_anion anion_atoms
    by (simp add: anion_deck_def Let_def GAUSSIAN_HEADER_format_def intermediate_text_def
        del: filter.simps)
  have n: "gjf_content (neutral_deck dir ps r) = intermediate_text NeutralRadical ps r"
    unfolding deck_content_neutral neutral_atoms
    by (simp add: neutral_deck_def Let_def GAUSSIAN_HEADER_format_def intermediate_text_def
        del: filter.simps)
  have e: "all_atoms (anion_deck dir ps r) = all_atoms (neutral_deck dir ps r)"
    by (simp only: anion_atoms neutral_atoms)
  show ?thesis
    unfolding a n e by (simp add: anion_deck_def neutral_deck_def Let_def)
qed

theorem anion_and_neutral_one_derivation_witness:
  "gjf_content (anion_deck ''geometry_input'' [1] 1) =
     ''%mem=8GB'' @ [NL] @
     ''%nprocshare=4'' @ [NL] @
     ''%chk=geometry_chks/_ClBzAnionIntermediate.chk'' @ [NL] @
     ''# opt am1'' @ [NL] @
     [NL] @
     ''Anion Intermediate (removed 1) _'' @ [NL] @
     [NL] @
     ''-1 0'' @ [NL] @
     ''C  -3.20928   0.19943  0.00000'' @ [NL] @
     ''C  -2.01150   0.93555  0.00000'' @ [NL] @
     ''C  -0.77511   0.26630  0.00000'' @ [NL] @
     ''C  -0.73650  -1.13907  0.00000'' @ [NL] @
     ''C  -1.93429  -1.87519  0.00000'' @ [NL] @
     ''C  -3.17067  -1.20594  0.00000'' @ [NL] @
     ''H  -4.76193   1.03987 -0.00000'' @ [NL] @
     ''H   0.81614  -1.97951  0.00000'' @ [NL] @
     ''H  -1.88580  -3.64003  0.00000'' @ [NL] @
     ''H  -2.05998   2.70040 -0.00000'' @ [NL] @
     ''H   0.72905   1.19071  0.00000'' @ [NL] @
     [NL]"
proof -
  have p: "pattern_of [1] 1 = ''_''" unfolding pattern_of_sites by simp
  from anion_and_neutral_one_derivation [of "''geometry_input''" "[1]" 1]
  have "gjf_content (anion_deck ''geometry_input'' [1] 1) = intermediate_text Anion [1] 1"
    by simp
  then show ?thesis
    by (simp add: intermediate_text_def p py_str_site site_line_def C_ATOMS_def
        SUBSTITUENT_COORDS_def)
qed

lemma py_str_digit:
  assumes "p \<in> {0..9}"
  shows "py_str p = [''0123456789'' ! nat p]"
proof -
  from assms have "0 \<le> p" and "p \<le> 9" by simp_all
  then have "p = 0 \<or> p = 1 \<or> p = 2 \<or> p = 3 \<or> p = 4 \<or> p = 5 \<or> p = 6 \<or> p = 7 \<or> p = 8 \<or> p = 9"
    by arith
  then show ?thesis by (elim disjE) (simp_all add: py_str_def str_nat.simps)
qed

lemma digit_char_cases:
  assumes "p \<in> {0..9}"
  shows "''0123456789'' ! nat p \<in> set ''0123456789''
       \<and> ''0123456789'' ! nat p \<noteq> CHR ''C''
       \<and> digit_value (''0123456789'' ! nat p) = p"
proof -
  from assms have "0 \<le> p" and "p \<le> 9" by simp_all
  then have "p = 0 \<or> p = 1 \<or> p = 2 \<or> p = 3 \<or> p = 4 \<or> p = 5 \<or> p = 6 \<or> p = 7 \<or> p = 8 \<or> p = 9"
    by arith
  then show ?thesis by (elim disjE) (simp_all add: digit_value_def)
qed

lemma before_marker_digits:
  assumes "set ps \<subseteq> {0..9}"
  shows "before_marker ''ClBz'' (concat (map py_str ps) @ ''ClBz'') = concat (map py_str ps)"
  using assms
proof (induction ps)
  case Nil
  show ?case by simp
next
  case (Cons p ps)
  then have p: "p \<in> {0..9}" and ps: "set ps \<subseteq> {0..9}" by simp_all
  from digit_char_cases [OF p] have "''0123456789'' ! nat p \<noteq> CHR ''C''" by blast
  with Cons.IH [OF ps] show ?case by (simp add: py_str_digit [OF p])
qed

lemma digits_back:
  assumes "set ps \<subseteq> {0..9}"
  shows "map digit_value (filter (\<lambda>c. c \<in> set ''0123456789'') (concat (map py_str ps))) = ps"
  using assms
proof (induction ps)
  case Nil
  show ?case by simp
next
  case (Cons p ps)
  then have p: "p \<in> {0..9}" and ps: "set ps \<subseteq> {0..9}" by simp_all
  from digit_char_cases [OF p] Cons.IH [OF ps] show ?case
    by (simp only: py_str_digit [OF p] list.map concat.simps append_Cons append_Nil filter.simps
        if_True)
qed

lemma name_round_trip:
  assumes "set ps \<subseteq> {0..9}"
  shows "name_positions (filename_base (gjf_deck dir ps)) = ps"
proof -
  have "filename_base (gjf_deck dir ps) = concat (map py_str ps) @ ''ClBz''"
    by (simp add: gjf_deck_def Let_def)
  then show ?thesis
    by (simp only: name_positions_def before_marker_digits [OF assms] digits_back [OF assms])
qed

text \<open>
  C6. For each of the 12 position lists of \<^verbatim>\<open>CHLORINE_POSITIONS\<close>, the digits of the base
  name before \<^verbatim>\<open>ClBz\<close> are the positions of the list, in its order. The list 1, 3, 5 has
  the name \<^verbatim>\<open>135ClBz\<close>, whose digits are 1, 3 and 5.
\<close>

theorem base_name_round_trip:
  "(\<forall>ps \<in> set CHLORINE_POSITIONS.
      name_positions (filename_base (gjf_deck dir ps)) = ps
    \<and> set (name_positions (filename_base (gjf_deck dir ps))) = set ps)
   \<and> filename_base (gjf_deck dir [1, 3, 5]) = ''135ClBz''
   \<and> set (name_positions ''135ClBz'') = {1, 3, 5}"
proof -
  have "name_positions (filename_base (gjf_deck dir ps)) = ps" if "ps \<in> set CHLORINE_POSITIONS" for ps
  proof -
    from that have "set ps \<subseteq> {0..9}" by (auto simp: CHLORINE_POSITIONS_def)
    then show ?thesis by (rule name_round_trip)
  qed
  moreover have f: "filename_base (gjf_deck dir [1, 3, 5]) = ''135ClBz''"
    by (simp add: gjf_deck_def Let_def py_str_site)
  moreover have "name_positions (filename_base (gjf_deck dir [1, 3, 5])) = [1, 3, 5]"
    by (rule name_round_trip) simp
  then have "set (name_positions ''135ClBz'') = {1, 3, 5}" unfolding f by simp
  ultimately show ?thesis by simp
qed

theorem base_name_round_trip_witness:
  "name_positions (filename_base (gjf_deck ''geometry_input'' [1, 2, 4, 5])) = [1, 2, 4, 5]"
  using base_name_round_trip [of "''geometry_input''"]
  by (simp add: CHLORINE_POSITIONS_def)

section \<open>Properties of the log scraper\<close>

lemma rsplit1_last_separator:
  assumes "sep \<notin> set b"
  shows "rsplit1 sep (a @ sep # b) = [a, b]"
proof -
  have r: "rev (a @ sep # b) = rev b @ sep # rev a" by simp
  have nb: "\<forall>c \<in> set (rev b). c \<noteq> sep" using assms by auto
  have d: "dropWhile (\<lambda>c. c \<noteq> sep) (rev b @ sep # rev a) = sep # rev a"
    using nb by (simp add: dropWhile_append3)
  have t: "takeWhile (\<lambda>c. c \<noteq> sep) (rev b @ sep # rev a) = rev b"
    using nb by (simp add: takeWhile_tail)
  show ?thesis unfolding rsplit1_def r d t by simp
qed

text \<open>
  C8. \<^verbatim>\<open>derive_name_from_stem\<close> cuts the stem at its last underscore (a stem with none is
  kept whole), strips blanks and underscores from both ends of what is left, and gives
  that, or the whole stem when nothing is left. So \<^verbatim>\<open>mol_run_Baz\<close> gives \<^verbatim>\<open>mol_run\<close>,
  \<^verbatim>\<open>Baz\<close> gives \<^verbatim>\<open>Baz\<close> and \<^verbatim>\<open>___\<close> gives \<^verbatim>\<open>___\<close>.
\<close>

theorem derive_name_from_stem_cases:
  "(CHR ''_'' \<notin> set b \<longrightarrow>
      derive_name_from_stem (a @ ''_'' @ b) =
        (if strip '' _'' a = [] then a @ ''_'' @ b else strip '' _'' a))
   \<and> (CHR ''_'' \<notin> set stem \<longrightarrow>
      derive_name_from_stem stem = (if strip '' _'' stem = [] then stem else strip '' _'' stem))
   \<and> derive_name_from_stem ''mol_run_Baz'' = ''mol_run''
   \<and> derive_name_from_stem ''Baz'' = ''Baz''
   \<and> derive_name_from_stem ''___'' = ''___''"
proof -
  have one: "derive_name_from_stem (a @ ''_'' @ b) =
        (if strip '' _'' a = [] then a @ ''_'' @ b else strip '' _'' a)"
    if "CHR ''_'' \<notin> set b"
    using rsplit1_last_separator [OF that, of a]
    by (simp add: derive_name_from_stem_def Let_def)
  have two: "derive_name_from_stem stem = (if strip '' _'' stem = [] then stem else strip '' _'' stem)"
    if "CHR ''_'' \<notin> set stem"
    using that by (simp add: derive_name_from_stem_def Let_def)
  have ex: "derive_name_from_stem ''mol_run_Baz'' = ''mol_run''"
    "derive_name_from_stem ''Baz'' = ''Baz''"
    "derive_name_from_stem ''___'' = ''___''"
    by (simp_all add: derive_name_from_stem_def rsplit1_def strip_def Let_def)
  from one two ex show ?thesis by blast
qed

theorem derive_name_from_stem_cases_witness:
  "derive_name_from_stem ''_foo_bar _Baz'' = ''foo_bar''
   \<and> derive_name_from_stem '' Baz '' = ''Baz''"
proof -
  have s1: "strip '' _'' ''_foo_bar '' = ''foo_bar''" by (simp add: strip_def)
  have s2: "strip '' _'' '' Baz '' = ''Baz''" by (simp add: strip_def)
  have h1: "CHR ''_'' \<notin> set ''Baz''" by simp
  have h2: "CHR ''_'' \<notin> set '' Baz ''" by simp
  from derive_name_from_stem_cases [of "''Baz''" "''_foo_bar ''" "'' Baz ''"] h1 h2
  show ?thesis unfolding s1 s2 by simp
qed

subsection \<open>The number pattern on a longer text\<close>











subsection \<open>The free energy\<close>













subsection \<open>The lowest virtual orbital\<close>












subsection \<open>Evaluating on given texts\<close>


















end
